theory Spec2Isabelle
  imports Complex_Main
begin

section \<open>JavaScript values used by the components\<close>

text \<open>
  Strings are \<open>string\<close>; a value that may be \<open>null\<close> is an \<open>option\<close>. A JavaScript
  string is truthy iff it is not empty, \<open>null\<close> is falsy. Numbers are idealised as
  reals; a division whose divisor is zero (where JavaScript yields \<open>Infinity\<close> or
  \<open>NaN\<close>) is written out as \<open>None\<close> wherever the source divides.
\<close>

definition truthy :: "string option \<Rightarrow> bool" where
  "truthy v = (case v of None \<Rightarrow> False | Some s \<Rightarrow> s \<noteq> [])"

definition startsWith :: "string \<Rightarrow> string \<Rightarrow> bool" where
  "startsWith s p = (take (length p) s = p)"

text \<open>\<open>+(x).toFixed(2)\<close>: the nearest multiple of 1/100, a tie going away from zero.\<close>

definition toFixed2 :: "real \<Rightarrow> real" where
  "toFixed2 x =
     (if x < 0 then - (of_int \<lfloor>(- x) * 100 + 1 / 2\<rfloor> / 100)
      else of_int \<lfloor>x * 100 + 1 / 2\<rfloor> / 100)"

definition two_decimals :: "real \<Rightarrow> bool" where
  "two_decimals x = (of_int \<lfloor>x * 100\<rfloor> = x * 100)"

section \<open>AddToCartButton.jsx\<close>

record cart_props =
  variantId :: "string option"
  imageUrl_prop :: "string option"
  width_prop :: real
  height_prop :: real
  preCut_prop :: bool
  quantity_prop :: nat

record button_state =
  isLoading :: bool
  error :: "string option"
  success :: bool

text \<open>The body of the POST to \<open>/cart/add.js\<close>.\<close>

record cart_request =
  req_id :: string
  req_quantity :: nat
  area_x :: real
  area_y :: real
  preCut_text :: string
  customImage :: string

definition isServerUrl :: "cart_props \<Rightarrow> bool" where
  "isServerUrl p =
     (case imageUrl_prop p of
        None \<Rightarrow> False
      | Some u \<Rightarrow> u \<noteq> [] \<and> \<not> startsWith u ''blob:'')"

definition isValid :: "cart_props \<Rightarrow> bool" where
  "isValid p =
     (isServerUrl p \<and> width_prop p > 0 \<and> height_prop p > 0 \<and> truthy (variantId p))"

text \<open>
  \<open>addToCart\<close> up to its \<open>await fetch\<close>: the state after the synchronous part and the
  request it sends, \<open>None\<close> when it returns at the guard.
\<close>

definition addToCart :: "cart_props \<Rightarrow> button_state \<Rightarrow> button_state \<times> cart_request option" where
  "addToCart p st =
     (if \<not> isValid p \<or> isLoading st then (st, None)
      else
        (st\<lparr>isLoading := True, error := None, success := False\<rparr>,
         Some \<lparr>req_id = the (variantId p),
               req_quantity = quantity_prop p,
               area_x = toFixed2 (width_prop p),
               area_y = toFixed2 (height_prop p),
               preCut_text = (if preCut_prop p then ''Yes'' else ''No''),
               customImage = the (imageUrl_prop p)\<rparr>))"

section \<open>SizeControls.jsx\<close>

definition STEP_INCHES :: real where "STEP_INCHES = 1"
definition MIN_SIZE :: real where "MIN_SIZE = 1 / 2"
definition MAX_SIZE :: real where "MAX_SIZE = 45 / 2"

text \<open>Clamp a value to \<open>[MIN_SIZE, MAX_SIZE]\<close> and round to 2 decimals.\<close>

definition clamp :: "real \<Rightarrow> real" where
  "clamp v = toFixed2 (min MAX_SIZE (max MIN_SIZE v))"

definition aspectRatio :: "real \<Rightarrow> real \<Rightarrow> real" where
  "aspectRatio width height = (if width > 0 then height / width else 1)"

definition updateWidthAndHeight :: "real \<Rightarrow> real \<Rightarrow> real \<times> real" where
  "updateWidthAndHeight newWidth newHeight = (clamp newWidth, clamp newHeight)"

text \<open>
  JavaScript's \<open>a / b\<close> on finite numbers; \<open>None\<close> stands for the non-finite result of
  a zero divisor.
\<close>

definition divide_js :: "real \<Rightarrow> real \<Rightarrow> real option" where
  "divide_js a b = (if b = 0 then None else Some (a / b))"

text \<open>
  The handlers take the component's \<open>(width, height)\<close> and return the pair they set
  through \<open>setWidth\<close> and \<open>setHeight\<close>.
\<close>

definition incrementWidth :: "real \<times> real \<Rightarrow> (real \<times> real) option" where
  "incrementWidth wh =
     (let width = fst wh; height = snd wh; ar = aspectRatio width height;
          newWidth = min MAX_SIZE (toFixed2 (width + STEP_INCHES));
          newHeight = newWidth * ar
      in if newHeight > MAX_SIZE then
           map_option (\<lambda>nw. updateWidthAndHeight nw MAX_SIZE) (divide_js MAX_SIZE ar)
         else if newHeight < MIN_SIZE then
           map_option (\<lambda>nw. updateWidthAndHeight nw MIN_SIZE) (divide_js MIN_SIZE ar)
         else Some (updateWidthAndHeight newWidth newHeight))"

definition decrementWidth :: "real \<times> real \<Rightarrow> (real \<times> real) option" where
  "decrementWidth wh =
     (let width = fst wh; height = snd wh; ar = aspectRatio width height;
          newWidth = max MIN_SIZE (toFixed2 (width - STEP_INCHES));
          newHeight = newWidth * ar
      in if newHeight > MAX_SIZE then
           map_option (\<lambda>nw. updateWidthAndHeight nw MAX_SIZE) (divide_js MAX_SIZE ar)
         else if newHeight < MIN_SIZE then
           map_option (\<lambda>nw. updateWidthAndHeight nw MIN_SIZE) (divide_js MIN_SIZE ar)
         else Some (updateWidthAndHeight newWidth newHeight))"

definition incrementHeight :: "real \<times> real \<Rightarrow> (real \<times> real) option" where
  "incrementHeight wh =
     (let width = fst wh; height = snd wh; ar = aspectRatio width height;
          newHeight = min MAX_SIZE (toFixed2 (height + STEP_INCHES))
      in case divide_js newHeight ar of
           None \<Rightarrow> None
         | Some newWidth \<Rightarrow>
             Some (if newWidth > MAX_SIZE then updateWidthAndHeight MAX_SIZE (MAX_SIZE * ar)
                   else if newWidth < MIN_SIZE then updateWidthAndHeight MIN_SIZE (MIN_SIZE * ar)
                   else updateWidthAndHeight newWidth newHeight))"

definition decrementHeight :: "real \<times> real \<Rightarrow> (real \<times> real) option" where
  "decrementHeight wh =
     (let width = fst wh; height = snd wh; ar = aspectRatio width height;
          newHeight = max MIN_SIZE (toFixed2 (height - STEP_INCHES))
      in case divide_js newHeight ar of
           None \<Rightarrow> None
         | Some newWidth \<Rightarrow>
             Some (if newWidth > MAX_SIZE then updateWidthAndHeight MAX_SIZE (MAX_SIZE * ar)
                   else if newWidth < MIN_SIZE then updateWidthAndHeight MIN_SIZE (MIN_SIZE * ar)
                   else updateWidthAndHeight newWidth newHeight))"

text \<open>
  \<open>e.target.value\<close> together with what \<open>parseFloat\<close> makes of it: the empty string
  (\<open>NaN\<close>), a text that parses to a finite number, or any other text (\<open>NaN\<close> or an
  infinity, which fail the range test like \<open>NaN\<close>).
\<close>

datatype text_value = EmptyText | NumberText real | OtherText

definition handleWidthChange :: "text_value \<Rightarrow> real \<times> real \<Rightarrow> (real \<times> real) option" where
  "handleWidthChange e wh =
     (let width = fst wh; height = snd wh; ar = aspectRatio width height
      in case e of
           NumberText v \<Rightarrow>
             if v \<ge> MIN_SIZE \<and> v \<le> MAX_SIZE then Some (toFixed2 v, clamp (v * ar))
             else Some wh
         | EmptyText \<Rightarrow> Some (MIN_SIZE, height)
         | OtherText \<Rightarrow> Some wh)"

definition handleHeightChange :: "text_value \<Rightarrow> real \<times> real \<Rightarrow> (real \<times> real) option" where
  "handleHeightChange e wh =
     (let width = fst wh; height = snd wh; ar = aspectRatio width height
      in case e of
           NumberText v \<Rightarrow>
             if v \<ge> MIN_SIZE \<and> v \<le> MAX_SIZE then
               map_option (\<lambda>q. (clamp q, toFixed2 v)) (divide_js v ar)
             else Some wh
         | EmptyText \<Rightarrow> Some (width, MIN_SIZE)
         | OtherText \<Rightarrow> Some wh)"

datatype size_action =
  IncrementWidth | DecrementWidth | IncrementHeight | DecrementHeight
  | WidthInput real | HeightInput real

definition size_step :: "size_action \<Rightarrow> real \<times> real \<Rightarrow> (real \<times> real) option" where
  "size_step a wh =
     (case a of
        IncrementWidth \<Rightarrow> incrementWidth wh
      | DecrementWidth \<Rightarrow> decrementWidth wh
      | IncrementHeight \<Rightarrow> incrementHeight wh
      | DecrementHeight \<Rightarrow> decrementHeight wh
      | WidthInput v \<Rightarrow> handleWidthChange (NumberText v) wh
      | HeightInput v \<Rightarrow> handleHeightChange (NumberText v) wh)"

definition in_range :: "real \<Rightarrow> bool" where
  "in_range x = (1 / 2 \<le> x \<and> x \<le> 45 / 2)"

text \<open>A numeric input is accepted when it is in range; a good pair is in range and rounded.\<close>

definition accepted :: "size_action \<Rightarrow> bool" where
  "accepted a =
     (case a of WidthInput v \<Rightarrow> in_range v | HeightInput v \<Rightarrow> in_range v | _ \<Rightarrow> True)"

definition good :: "real \<times> real \<Rightarrow> bool" where
  "good wh =
     (in_range (fst wh) \<and> in_range (snd wh) \<and> two_decimals (fst wh) \<and> two_decimals (snd wh))"

section \<open>ProductCustomizer.jsx: the dimension reader\<close>

definition DIMENSION_MIN :: real where "DIMENSION_MIN = 1 / 2"
definition DIMENSION_MAX :: real where "DIMENSION_MAX = 45 / 2"
definition DPI :: real where "DPI = 300"

text \<open>What loading the image gives: \<open>onload\<close> with its natural size, or \<open>onerror\<close>.\<close>

datatype image_load = Loaded nat nat | LoadFailed

definition getImageDimensionsInInches :: "image_load \<Rightarrow> string + real \<times> real" where
  "getImageDimensionsInInches img =
     (case img of
        Loaded naturalWidth naturalHeight \<Rightarrow>
          (let wInches = real naturalWidth / DPI;
               hInches = real naturalHeight / DPI;
               widthInches = min DIMENSION_MAX (max DIMENSION_MIN (toFixed2 wInches));
               heightInches = min DIMENSION_MAX (max DIMENSION_MIN (toFixed2 hInches))
           in Inr (widthInches, heightInches))
      | LoadFailed \<Rightarrow> Inl ''Failed to load image for dimensions'')"

section \<open>ProductCustomizer.jsx: the component state\<close>

text \<open>
  A \<open>Blob\<close> or \<open>File\<close> object is an opaque identity. A remote call is one \<open>fetch\<close>
  with the signal of the \<open>AbortController\<close> created for it; it waits first for the
  response (\<open>await fetch\<close>), then for the body (\<open>await res.blob()\<close>).
\<close>

type_synonym blob = nat

datatype handler = UploadAuto | RemoveBg | Enhance | ToggleOn

datatype phase = AwaitFetch | AwaitBlob

record call =
  handler :: handler
  signal :: nat
  phase :: phase

text \<open>
  The response: its HTTP status and the headers \<open>X-Image-Link\<close>,
  \<open>X-AutoEnhance-Link\<close> and \<open>X-Original-Image-Link\<close> (\<open>headers.get\<close> gives \<open>null\<close> for
  an absent one).
\<close>

record response =
  status :: nat
  imageLink :: "string option"
  autoEnhanceLink :: "string option"
  originalLink :: "string option"

text \<open>
  How an awaited promise of a call settles: \<open>fetch\<close> resolves with a response,
  \<open>res.blob()\<close> resolves with a blob (given with the URL that \<open>URL.createObjectURL\<close>
  then returns for it), or the promise rejects with an error that is not an abort.
\<close>

datatype settlement = Response response | Body blob string | Failed

text \<open>
  The \<open>useState\<close> and \<open>useRef\<close> values of \<open>ProductCustomizer\<close> that the image handlers
  read or write, followed by the environment they act on: the signals aborted so far,
  the calls awaiting a settlement, the next fresh signal, the requests sent
  (endpoint and posted image), the URLs passed to \<open>URL.revokeObjectURL\<close> in order, the
  image loads started to read dimensions, and the console.
\<close>

record state =
  imageUrl :: "string option"
  width :: real
  height :: real
  currentImageBlob :: "blob option"
  originalImageBlob :: "blob option"
  processedImageBlob :: "blob option"
  originalImageUrl :: "string option"
  processedImageUrl :: "string option"
  originalServerUrl :: "string option"
  processedServerUrl :: "string option"
  finalImageUrl :: "string option"
  loadingRemoveBg :: bool
  loadingEnhance :: bool
  removeBgEnabled :: bool
  currentBlobUrlRef :: "string option"
  abortControllerRef :: "nat option"
  originalBlobUrlRef :: "string option"
  processedBlobUrlRef :: "string option"
  aborted :: "nat set"
  pending :: "call list"
  nextSignal :: nat
  fetches :: "(string \<times> blob) list"
  revoked :: "string list"
  dimReads :: "string list"
  console :: "string list"

definition init :: state where
  "init =
     \<lparr>imageUrl = None, width = 10, height = 10,
      currentImageBlob = None, originalImageBlob = None, processedImageBlob = None,
      originalImageUrl = None, processedImageUrl = None,
      originalServerUrl = None, processedServerUrl = None, finalImageUrl = None,
      loadingRemoveBg = False, loadingEnhance = False, removeBgEnabled = True,
      currentBlobUrlRef = None, abortControllerRef = None,
      originalBlobUrlRef = None, processedBlobUrlRef = None,
      aborted = {}, pending = [], nextSignal = 0, fetches = [], revoked = [],
      dimReads = [], console = []\<rparr>"

definition API_BASE :: string where
  "API_BASE = ''https://highquality.allgovjobs.com/backend''"

definition REMOVE_BG_ENDPOINT :: string where
  "REMOVE_BG_ENDPOINT = API_BASE @ ''/api/images/remove-bg''"

definition ENHANCE_ENDPOINT :: string where
  "ENHANCE_ENDPOINT = API_BASE @ ''/api/images/enhance''"

text \<open>Build a full server URL from a path (avoids double slashes).\<close>

definition buildServerUrl :: "string option \<Rightarrow> string option" where
  "buildServerUrl path =
     (if \<not> truthy path then None
      else
        (let base = (if API_BASE \<noteq> [] \<and> last API_BASE = CHR ''/'' then butlast API_BASE
                     else API_BASE);
             p = (if startsWith (the path) ''/'' then drop 1 (the path) else the path)
         in Some (base @ ''/'' @ p)))"

text \<open>\<open>x || null\<close> on a string or \<open>null\<close>.\<close>

definition orNull :: "string option \<Rightarrow> string option" where
  "orNull v = (if truthy v then v else None)"

definition revokeObjectURL :: "string \<Rightarrow> state \<Rightarrow> state" where
  "revokeObjectURL u s = s\<lparr>revoked := revoked s @ [u]\<rparr>"

text \<open>\<open>ref.current && ref.current.startsWith("blob:")\<close>\<close>

definition isBlobRef :: "string option \<Rightarrow> bool" where
  "isBlobRef r = (case r of None \<Rightarrow> False | Some u \<Rightarrow> u \<noteq> [] \<and> startsWith u ''blob:'')"

definition revokeRef :: "string option \<Rightarrow> state \<Rightarrow> state" where
  "revokeRef r s = (if isBlobRef r then revokeObjectURL (the r) s else s)"

text \<open>\<open>abortControllerRef.current?.abort()\<close>\<close>

definition abortCurrent :: "state \<Rightarrow> state" where
  "abortCurrent s =
     (case abortControllerRef s of
        None \<Rightarrow> s
      | Some k \<Rightarrow> s\<lparr>aborted := insert k (aborted s)\<rparr>)"

text \<open>
  The opening every processing path shares: abort the running call, install a new
  \<open>AbortController\<close>, and \<open>fetch\<close> the endpoint with the image and the new signal.
\<close>

definition startFetch :: "handler \<Rightarrow> string \<Rightarrow> blob \<Rightarrow> state \<Rightarrow> state" where
  "startFetch h endpoint posted s =
     (let s1 = abortCurrent s; k = nextSignal s1
      in s1\<lparr>abortControllerRef := Some k,
             nextSignal := Suc k,
             pending := pending s1 @ [\<lparr>handler = h, signal = k, phase = AwaitFetch\<rparr>],
             fetches := fetches s1 @ [(endpoint, posted)]\<rparr>)"

text \<open>
  \<open>updateDimensionsFromImageUrl\<close> starts an image load; \<open>imageSettled\<close> is its
  \<open>then\<close>/\<open>catch\<close>, run when the load of that URL ends.
\<close>

definition updateDimensionsFromImageUrl :: "string option \<Rightarrow> state \<Rightarrow> state" where
  "updateDimensionsFromImageUrl url s =
     (if \<not> truthy url then s else s\<lparr>dimReads := dimReads s @ [the url]\<rparr>)"

definition imageSettled :: "string \<Rightarrow> image_load \<Rightarrow> state \<Rightarrow> state" where
  "imageSettled u img s =
     (if u \<notin> set (dimReads s) then s
      else
        (let s1 = s\<lparr>dimReads := remove1 u (dimReads s)\<rparr>
         in case getImageDimensionsInInches img of
              Inr (widthInches, heightInches) \<Rightarrow>
                s1\<lparr>width := widthInches, height := heightInches\<rparr>
            | Inl err \<Rightarrow>
                s1\<lparr>console := console s1 @ [''Could not read image dimensions: '' @ err]\<rparr>))"

section \<open>ProductCustomizer.jsx: the handlers\<close>

text \<open>
  Each handler is its synchronous part, up to the first \<open>await\<close>; what follows an
  \<open>await\<close> is in \<open>settle\<close> below.
\<close>

definition handleImageUpload :: "string \<Rightarrow> blob option \<Rightarrow> state \<Rightarrow> state" where
  "handleImageUpload url file s =
     (let s1 = (if isBlobRef (originalBlobUrlRef s) \<and> originalBlobUrlRef s \<noteq> Some url
                then revokeObjectURL (the (originalBlobUrlRef s)) s else s);
          s2 = revokeRef (processedBlobUrlRef s1) s1;
          s3 = s2\<lparr>originalImageBlob := file,
                   originalImageUrl := Some url,
                   originalBlobUrlRef := Some url,
                   processedImageBlob := None,
                   processedImageUrl := None,
                   originalServerUrl := None,
                   processedServerUrl := None,
                   processedBlobUrlRef := None,
                   finalImageUrl := None,
                   currentBlobUrlRef := Some url,
                   imageUrl := Some url,
                   currentImageBlob := file,
                   dimReads := dimReads s2 @ [url]\<rparr>
      in case file of
           None \<Rightarrow> s3
         | Some f \<Rightarrow>
             if removeBgEnabled s
             then (startFetch UploadAuto REMOVE_BG_ENDPOINT f s3)\<lparr>loadingRemoveBg := True\<rparr>
             else s3)"

text \<open>Cancel ongoing processing (Remove BG or Enhance).\<close>

definition handleCancelProcessing :: "state \<Rightarrow> state" where
  "handleCancelProcessing s =
     (abortCurrent s)\<lparr>loadingRemoveBg := False, loadingEnhance := False\<rparr>"

definition handleRemoveBg :: "state \<Rightarrow> state" where
  "handleRemoveBg s =
     (case currentImageBlob s of
        None \<Rightarrow> s
      | Some b \<Rightarrow>
          if loadingRemoveBg s then s
          else (startFetch RemoveBg REMOVE_BG_ENDPOINT b s)\<lparr>loadingRemoveBg := True\<rparr>)"

definition handleEnhance :: "state \<Rightarrow> state" where
  "handleEnhance s =
     (case currentImageBlob s of
        None \<Rightarrow> s
      | Some b \<Rightarrow>
          if loadingEnhance s then s
          else (startFetch Enhance ENHANCE_ENDPOINT b s)\<lparr>loadingEnhance := True\<rparr>)"

definition handleClearDesign :: "state \<Rightarrow> state" where
  "handleClearDesign s =
     (let s1 = revokeRef (originalBlobUrlRef s) s;
          s2 = revokeRef (processedBlobUrlRef s1) s1
      in s2\<lparr>currentBlobUrlRef := None,
             originalBlobUrlRef := None,
             processedBlobUrlRef := None,
             imageUrl := None,
             currentImageBlob := None,
             originalImageBlob := None,
             originalImageUrl := None,
             processedImageBlob := None,
             processedImageUrl := None,
             originalServerUrl := None,
             processedServerUrl := None,
             finalImageUrl := None\<rparr>)"

definition handleToggleRemoveBg :: "bool \<Rightarrow> state \<Rightarrow> state" where
  "handleToggleRemoveBg enabled s =
     (let s0 = s\<lparr>removeBgEnabled := enabled\<rparr>
      in if \<not> enabled \<and> truthy (originalImageUrl s) \<and> originalImageBlob s \<noteq> None then
           updateDimensionsFromImageUrl (originalImageUrl s)
             (s0\<lparr>currentBlobUrlRef := originalImageUrl s,
                  imageUrl := originalImageUrl s,
                  currentImageBlob := originalImageBlob s,
                  finalImageUrl := orNull (originalServerUrl s)\<rparr>)
         else if enabled \<and> truthy (processedImageUrl s) \<and> processedImageBlob s \<noteq> None then
           updateDimensionsFromImageUrl (processedImageUrl s)
             (s0\<lparr>currentBlobUrlRef := processedImageUrl s,
                  imageUrl := processedImageUrl s,
                  currentImageBlob := processedImageBlob s,
                  finalImageUrl := orNull (processedServerUrl s)\<rparr>)
         else if enabled \<and> originalImageBlob s \<noteq> None \<and> processedImageBlob s = None then
           (startFetch ToggleOn REMOVE_BG_ENDPOINT (the (originalImageBlob s)) s0)
             \<lparr>loadingRemoveBg := True\<rparr>
         else s0)"

text \<open>Cleanup blob URLs on unmount.\<close>

definition unmount :: "state \<Rightarrow> state" where
  "unmount s = revokeRef (processedBlobUrlRef s) (revokeRef (originalBlobUrlRef s) s)"

text \<open>
  Add to cart uses the server URL chosen by the toggle; this is the \<open>imageUrl\<close> prop of
  \<open>AddToCartButton\<close>.
\<close>

definition cartImageUrl :: "state \<Rightarrow> string option" where
  "cartImageUrl s =
     (if removeBgEnabled s then orNull (processedServerUrl s)
      else orNull (originalServerUrl s))"

section \<open>ProductCustomizer.jsx: after the awaits\<close>

text \<open>
  After \<open>await fetch\<close>: the server URLs are read from the response headers. The status
  of the response is not looked at.
\<close>

definition readLinks :: "handler \<Rightarrow> response \<Rightarrow> state \<Rightarrow> state" where
  "readLinks h res s =
     (let serverLink = (if h = Enhance then autoEnhanceLink res else imageLink res);
          s1 = (if truthy serverLink
                then s\<lparr>processedServerUrl := buildServerUrl serverLink,
                       finalImageUrl := buildServerUrl serverLink\<rparr>
                else s)
      in if truthy (originalLink res)
         then s1\<lparr>originalServerUrl := buildServerUrl (originalLink res)\<rparr>
         else s1)"

text \<open>
  After \<open>await res.blob()\<close>, with the blob and the URL \<open>URL.createObjectURL\<close> returns
  for it. The upload and the toggle path store and display it; the Remove BG and
  Enhance buttons also revoke the URLs held by \<open>processedBlobUrlRef\<close> and
  \<open>currentBlobUrlRef\<close>; all but Enhance then read the dimensions of the new image.
\<close>

definition storeProcessed :: "handler \<Rightarrow> blob \<Rightarrow> string \<Rightarrow> state \<Rightarrow> state" where
  "storeProcessed h processedBlob newDisplayUrl s =
     (if h = UploadAuto \<or> h = ToggleOn then
        updateDimensionsFromImageUrl (Some newDisplayUrl)
          (s\<lparr>processedImageBlob := Some processedBlob,
              processedImageUrl := Some newDisplayUrl,
              processedBlobUrlRef := Some newDisplayUrl,
              currentBlobUrlRef := Some newDisplayUrl,
              imageUrl := Some newDisplayUrl,
              currentImageBlob := Some processedBlob\<rparr>)
      else
        (let s1 = s\<lparr>processedImageBlob := Some processedBlob,
                      currentImageBlob := Some processedBlob\<rparr>;
             s2 = revokeRef (processedBlobUrlRef s1) s1;
             s3 = s2\<lparr>processedBlobUrlRef := Some newDisplayUrl,
                       processedImageUrl := Some newDisplayUrl\<rparr>;
             s4 = revokeRef (currentBlobUrlRef s3) s3;
             s5 = s4\<lparr>currentBlobUrlRef := Some newDisplayUrl,
                       imageUrl := Some newDisplayUrl\<rparr>
         in if h = RemoveBg then updateDimensionsFromImageUrl (Some newDisplayUrl) s5
            else s5))"

text \<open>The \<open>finally\<close> block of a call, and the call leaving the pending ones.\<close>

definition finish :: "call \<Rightarrow> state \<Rightarrow> state" where
  "finish c s =
     (let s1 = (if handler c = Enhance then s\<lparr>loadingEnhance := False\<rparr>
                else s\<lparr>loadingRemoveBg := False\<rparr>)
      in s1\<lparr>pending := filter (\<lambda>d. signal d \<noteq> signal c) (pending s1)\<rparr>)"

definition failureMessage :: "handler \<Rightarrow> string" where
  "failureMessage h =
     (case h of
        UploadAuto \<Rightarrow> ''Auto remove-bg failed:''
      | RemoveBg \<Rightarrow> ''Remove background failed:''
      | Enhance \<Rightarrow> ''Enhance image failed:''
      | ToggleOn \<Rightarrow> ''Remove-bg on toggle failed:'')"

text \<open>The call with signal \<open>k\<close> goes on from \<open>await fetch\<close> to \<open>await res.blob()\<close>.\<close>

definition advance :: "nat \<Rightarrow> call list \<Rightarrow> call list" where
  "advance k cs = map (\<lambda>d. if signal d = k then d\<lparr>phase := AwaitBlob\<rparr> else d) cs"

text \<open>
  The awaited promise of the call with signal \<open>k\<close> settles. Once the signal is aborted
  the promise rejects with \<open>AbortError\<close> whatever the network delivers: the \<open>catch\<close>
  returns and only \<open>finally\<close> runs. Otherwise a response moves the call on to
  \<open>res.blob()\<close>, a body completes it, and a failure is logged by the \<open>catch\<close>.
\<close>

definition settle :: "nat \<Rightarrow> settlement \<Rightarrow> state \<Rightarrow> state" where
  "settle k out s =
     (case find (\<lambda>c. signal c = k) (pending s) of
        None \<Rightarrow> s
      | Some c \<Rightarrow>
          if k \<in> aborted s then finish c s
          else
            (case out of
               Response res \<Rightarrow>
                 if phase c = AwaitFetch then
                   (readLinks (handler c) res s)\<lparr>pending := advance k (pending s)\<rparr>
                 else s
             | Body processedBlob newDisplayUrl \<Rightarrow>
                 if phase c = AwaitBlob
                 then finish c (storeProcessed (handler c) processedBlob newDisplayUrl s)
                 else s
             | Failed \<Rightarrow>
                 finish c (s\<lparr>console := console s @ [failureMessage (handler c)]\<rparr>)))"

section \<open>Runs of the component\<close>

datatype event =
  Upload string "blob option"
  | RemoveBackground
  | EnhanceImage
  | ClearDesign
  | CancelProcessing
  | Toggle bool
  | Settle nat settlement
  | ImageSettled string image_load
  | Unmount

definition step :: "event \<Rightarrow> state \<Rightarrow> state" where
  "step e s =
     (case e of
        Upload url file \<Rightarrow> handleImageUpload url file s
      | RemoveBackground \<Rightarrow> handleRemoveBg s
      | EnhanceImage \<Rightarrow> handleEnhance s
      | ClearDesign \<Rightarrow> handleClearDesign s
      | CancelProcessing \<Rightarrow> handleCancelProcessing s
      | Toggle enabled \<Rightarrow> handleToggleRemoveBg enabled s
      | Settle k out \<Rightarrow> settle k out s
      | ImageSettled u img \<Rightarrow> imageSettled u img s
      | Unmount \<Rightarrow> unmount s)"

definition run :: "event list \<Rightarrow> state \<Rightarrow> state" where
  "run evs s = foldl (\<lambda>t e. step e t) s evs"

text \<open>
  What a processing response may write: the original and processed artifacts, the
  stored server URLs, the displayed image, and the URLs revoked.
\<close>

definition artifacts ::
  "state \<Rightarrow> (string option \<times> blob option \<times> string option)
            \<times> (blob option \<times> string option \<times> string option \<times> string option)
            \<times> (blob option \<times> string option \<times> string option \<times> string option)
            \<times> string option \<times> string list" where
  "artifacts s =
     ((imageUrl s, currentImageBlob s, currentBlobUrlRef s),
      (originalImageBlob s, originalImageUrl s, originalBlobUrlRef s, originalServerUrl s),
      (processedImageBlob s, processedImageUrl s, processedBlobUrlRef s, processedServerUrl s),
      finalImageUrl s, revoked s)"

section \<open>The cancellation state\<close>

text \<open>
  The part of the state the cancellation logic works on: the pending calls, the
  aborted signals, the next fresh signal, the current controller and the requests
  sent. Every step of the component moves it in one of five ways.
\<close>

type_synonym control = "call list \<times> nat set \<times> nat \<times> nat option \<times> (string \<times> blob) list"

definition ctl :: "state \<Rightarrow> control" where
  "ctl s = (pending s, aborted s, nextSignal s, abortControllerRef s, fetches s)"

fun abortc :: "control \<Rightarrow> control" where
  "abortc (p, a, n, r, f) = (p, a \<union> set_option r, n, r, f)"

fun startc :: "handler \<Rightarrow> string \<times> blob \<Rightarrow> control \<Rightarrow> control" where
  "startc h x (p, a, n, r, f) =
     (p @ [\<lparr>handler = h, signal = n, phase = AwaitFetch\<rparr>], a \<union> set_option r, Suc n, Some n,
      f @ [x])"

fun finishc :: "nat \<Rightarrow> control \<Rightarrow> control" where
  "finishc k (p, a, n, r, f) = (filter (\<lambda>d. signal d \<noteq> k) p, a, n, r, f)"

fun advancec :: "nat \<Rightarrow> control \<Rightarrow> control" where
  "advancec k (p, a, n, r, f) = (advance k p, a, n, r, f)"

datatype move = Stay | Start handler "string \<times> blob" | Abort | Finish nat | Advance nat

fun movec :: "move \<Rightarrow> control \<Rightarrow> control" where
  "movec Stay c = c"
| "movec (Start h x) c = startc h x c"
| "movec Abort c = abortc c"
| "movec (Finish k) c = finishc k c"
| "movec (Advance k) c = advancec k c"

text \<open>
  Signals in use are below the next fresh one, and a pending call whose signal is not
  the current controller's has been aborted.
\<close>

definition invc :: "control \<Rightarrow> bool" where
  "invc c =
     (case c of (p, a, n, r, f) \<Rightarrow>
        (\<forall>d \<in> set p. signal d < n) \<and> (\<forall>k \<in> a. k < n) \<and> (\<forall>k \<in> set_option r. k < n)
        \<and> (\<forall>d \<in> set p. signal d \<in> a \<or> r = Some (signal d)))"

section \<open>Projections of the state\<close>

text \<open>
  Which artifact the preview shows (the spec's \<open>current\<close>), read off the displayed
  URL, and which artifact's server URL the cart is given.
\<close>

datatype kind = Original | Processed

definition current :: "state \<Rightarrow> kind option" where
  "current s =
     (if \<not> truthy (imageUrl s) then None
      else if imageUrl s = processedImageUrl s then Some Processed
      else if imageUrl s = originalImageUrl s then Some Original
      else None)"

definition cartKind :: "state \<Rightarrow> kind option" where
  "cartKind s =
     (if cartImageUrl s = None then None
      else if removeBgEnabled s then Some Processed
      else Some Original)"

text \<open>The declared size with the pending dimension reads, and what is on display.\<close>

definition dims :: "state \<Rightarrow> real \<times> real \<times> string list" where
  "dims s = (width s, height s, dimReads s)"

definition shown :: "state \<Rightarrow> string option \<times> blob option \<times> blob option \<times> string option" where
  "shown s = (imageUrl s, currentImageBlob s, processedImageBlob s, processedImageUrl s)"

section \<open>Cart submission guard\<close>

lemma isValid_imp:
  "isValid p \<Longrightarrow>
     (\<exists>u. imageUrl_prop p = Some u \<and> u \<noteq> [] \<and> \<not> startsWith u ''blob:'')
     \<and> 0 < width_prop p \<and> 0 < height_prop p \<and> truthy (variantId p)"
  by (auto simp: isValid_def isServerUrl_def split: option.splits)

text \<open>
  C5. \<open>addToCart\<close> sends a cart request only when the image URL it was given is a
  non-null, non-\<open>blob:\<close> URL and width and height are both positive; the request then
  carries that URL. When one of these conditions fails it returns at the guard: no
  request, and the button state is the one it started from.
\<close>

theorem addToCart_only_when_valid:
  "(snd (addToCart p st) = Some r \<longrightarrow>
      imageUrl_prop p = Some (customImage r) \<and> customImage r \<noteq> []
      \<and> \<not> startsWith (customImage r) ''blob:''
      \<and> 0 < width_prop p \<and> 0 < height_prop p)
   \<and> (\<not> (isServerUrl p \<and> 0 < width_prop p \<and> 0 < height_prop p) \<longrightarrow>
        addToCart p st = (st, None))"
proof (intro conjI impI)
  assume a: "snd (addToCart p st) = Some r"
  then have v: "isValid p"
    by (auto simp: addToCart_def split: if_splits)
  have i: "\<not> isLoading st"
    using a by (auto simp: addToCart_def split: if_splits)
  from v i a have c: "customImage r = the (imageUrl_prop p)"
    by (auto simp: addToCart_def)
  from isValid_imp [OF v] c
  show "imageUrl_prop p = Some (customImage r)" "customImage r \<noteq> []"
    "\<not> startsWith (customImage r) ''blob:''" "0 < width_prop p" "0 < height_prop p"
    by auto
next
  assume "\<not> (isServerUrl p \<and> 0 < width_prop p \<and> 0 < height_prop p)"
  then have "\<not> isValid p"
    by (auto simp: isValid_def)
  then show "addToCart p st = (st, None)"
    by (simp add: addToCart_def)
qed

theorem addToCart_only_when_valid_witness:
  "snd (addToCart \<lparr>variantId = Some ''42'', imageUrl_prop = Some ''https://cdn/x.png'',
                     width_prop = 3, height_prop = 4, preCut_prop = False, quantity_prop = 1\<rparr>
                   \<lparr>isLoading = False, error = None, success = False\<rparr>)
     = Some \<lparr>req_id = ''42'', req_quantity = 1, area_x = 3, area_y = 4,
              preCut_text = ''No'', customImage = ''https://cdn/x.png''\<rparr>
   \<and> \<not> startsWith ''https://cdn/x.png'' ''blob:''
   \<and> \<not> (isServerUrl \<lparr>variantId = Some ''42'', imageUrl_prop = Some ''blob:x'',
                       width_prop = 3, height_prop = 4, preCut_prop = False, quantity_prop = 1\<rparr>
          \<and> (0::real) < 3 \<and> (0::real) < 4)
   \<and> addToCart \<lparr>variantId = Some ''42'', imageUrl_prop = Some ''blob:x'',
                  width_prop = 3, height_prop = 4, preCut_prop = False, quantity_prop = 1\<rparr>
                \<lparr>isLoading = False, error = None, success = False\<rparr>
       = (\<lparr>isLoading = False, error = None, success = False\<rparr>, None)"
proof -
  let ?st = "\<lparr>isLoading = False, error = None, success = False\<rparr>"
  let ?p = "\<lparr>variantId = Some ''42'', imageUrl_prop = Some ''https://cdn/x.png'',
             width_prop = 3, height_prop = 4, preCut_prop = False, quantity_prop = 1\<rparr>"
  let ?q = "\<lparr>variantId = Some ''42'', imageUrl_prop = Some ''blob:x'',
             width_prop = 3, height_prop = 4, preCut_prop = False, quantity_prop = 1\<rparr>"
  let ?r = "\<lparr>req_id = ''42'', req_quantity = 1, area_x = 3, area_y = 4,
             preCut_text = ''No'', customImage = ''https://cdn/x.png''\<rparr>"
  have sent: "snd (addToCart ?p ?st) = Some ?r"
    by (simp add: addToCart_def isValid_def isServerUrl_def startsWith_def truthy_def
        toFixed2_def)
  have blob: "\<not> (isServerUrl ?q \<and> (0::real) < width_prop ?q \<and> 0 < height_prop ?q)"
    by (simp add: isServerUrl_def startsWith_def)
  from addToCart_only_when_valid [of ?p ?st ?r] sent
  have "\<not> startsWith ''https://cdn/x.png'' ''blob:''" by simp
  moreover from addToCart_only_when_valid [of ?q ?st] blob
  have "addToCart ?q ?st = (?st, None)" by blast
  ultimately show ?thesis using sent blob by simp
qed

text \<open>
  C9. With a non-\<open>blob:\<close> server URL and positive width and height, and no submission
  already running, \<open>addToCart\<close> sends a request exactly when \<open>variantId\<close> is truthy:
  with \<open>variantId\<close> null (or the empty string) it returns at the guard, sending nothing
  and leaving the button state as it was.
\<close>

theorem addToCart_needs_variantId:
  assumes "isServerUrl p" and "0 < width_prop p" and "0 < height_prop p"
    and "\<not> isLoading st"
  shows "(\<not> truthy (variantId p) \<longrightarrow> addToCart p st = (st, None))
         \<and> (truthy (variantId p) \<longrightarrow> snd (addToCart p st) \<noteq> None)"
  using assms by (simp add: addToCart_def isValid_def)

theorem addToCart_needs_variantId_witness:
  "isServerUrl \<lparr>variantId = None, imageUrl_prop = Some ''https://cdn/x.png'',
                 width_prop = 3, height_prop = 4, preCut_prop = True, quantity_prop = 2\<rparr>
   \<and> \<not> truthy None
   \<and> addToCart \<lparr>variantId = None, imageUrl_prop = Some ''https://cdn/x.png'',
                  width_prop = 3, height_prop = 4, preCut_prop = True, quantity_prop = 2\<rparr>
                \<lparr>isLoading = False, error = None, success = False\<rparr>
       = (\<lparr>isLoading = False, error = None, success = False\<rparr>, None)
   \<and> truthy (Some ''42'')
   \<and> snd (addToCart \<lparr>variantId = Some ''42'', imageUrl_prop = Some ''https://cdn/x.png'',
                  width_prop = 3, height_prop = 4, preCut_prop = True, quantity_prop = 2\<rparr>
                \<lparr>isLoading = False, error = None, success = False\<rparr>) \<noteq> None"
proof -
  let ?st = "\<lparr>isLoading = False, error = None, success = False\<rparr>"
  let ?p = "\<lparr>variantId = None, imageUrl_prop = Some ''https://cdn/x.png'',
             width_prop = 3, height_prop = 4, preCut_prop = True, quantity_prop = 2\<rparr>"
  let ?q = "\<lparr>variantId = Some ''42'', imageUrl_prop = Some ''https://cdn/x.png'',
             width_prop = 3, height_prop = 4, preCut_prop = True, quantity_prop = 2\<rparr>"
  have p: "isServerUrl ?p" "0 < width_prop ?p" "0 < height_prop ?p" "\<not> isLoading ?st"
    by (simp_all add: isServerUrl_def startsWith_def)
  have q: "isServerUrl ?q" "0 < width_prop ?q" "0 < height_prop ?q"
    by (simp_all add: isServerUrl_def startsWith_def)
  have t: "\<not> truthy (variantId ?p)" "truthy (variantId ?q)"
    by (simp_all add: truthy_def)
  from addToCart_needs_variantId [OF p] t(1)
  have a: "addToCart ?p ?st = (?st, None)" by blast
  from addToCart_needs_variantId [OF q p(4)] t(2)
  have b: "snd (addToCart ?q ?st) \<noteq> None" by blast
  show ?thesis using p(1) t a b by simp
qed

section \<open>Size controls stay in range\<close>

lemma toFixed2_two_decimals: "two_decimals (toFixed2 x)"
  by (simp add: toFixed2_def two_decimals_def)

lemma toFixed2_range:
  assumes "1 / 2 \<le> x" "x \<le> 45 / 2"
  shows "1 / 2 \<le> toFixed2 x \<and> toFixed2 x \<le> 45 / 2"
proof -
  have "(50::int) \<le> \<lfloor>x * 100 + 1 / 2\<rfloor>"
    using assms by (simp add: le_floor_iff)
  moreover have "\<lfloor>x * 100 + 1 / 2\<rfloor> \<le> (2250::int)"
    using assms by (simp add: floor_le_iff)
  ultimately have "(50::real) \<le> of_int \<lfloor>x * 100 + 1 / 2\<rfloor>"
    and "of_int \<lfloor>x * 100 + 1 / 2\<rfloor> \<le> (2250::real)"
    by linarith+
  then show ?thesis
    using assms by (simp add: toFixed2_def)
qed

lemma toFixed2_in_range: "in_range x \<Longrightarrow> in_range (toFixed2 x)"
  using toFixed2_range [of x] by (simp add: in_range_def)

lemma in_range_limits: "in_range v \<longleftrightarrow> MIN_SIZE \<le> v \<and> v \<le> MAX_SIZE"
  by (simp add: in_range_def MIN_SIZE_def MAX_SIZE_def)

lemma clamp_range: "in_range (clamp v)"
  unfolding clamp_def
  by (rule toFixed2_in_range) (simp add: in_range_limits MIN_SIZE_def MAX_SIZE_def)

lemma clamp_two_decimals: "two_decimals (clamp v)"
  by (simp add: clamp_def toFixed2_two_decimals)

lemma aspectRatio_pos: "in_range w \<Longrightarrow> in_range h \<Longrightarrow> 0 < aspectRatio w h"
  by (simp add: in_range_def aspectRatio_def)

lemma updateWidthAndHeight_good: "good (updateWidthAndHeight a b)"
  by (simp add: good_def updateWidthAndHeight_def clamp_range clamp_two_decimals)

lemma updateWidthAndHeight_ex: "\<exists>a b. updateWidthAndHeight x y = (a, b) \<and> good (a, b)"
  using updateWidthAndHeight_good [of x y] by (cases "updateWidthAndHeight x y") simp

lemmas stepper_simps =
  Let_def divide_js_def updateWidthAndHeight_ex updateWidthAndHeight_good

lemma incrementWidth_good:
  "0 < aspectRatio (fst wh) (snd wh) \<Longrightarrow> \<exists>r. incrementWidth wh = Some r \<and> good r"
  by (simp add: incrementWidth_def stepper_simps)

lemma decrementWidth_good:
  "0 < aspectRatio (fst wh) (snd wh) \<Longrightarrow> \<exists>r. decrementWidth wh = Some r \<and> good r"
  by (simp add: decrementWidth_def stepper_simps)

lemma incrementHeight_good:
  "0 < aspectRatio (fst wh) (snd wh) \<Longrightarrow> \<exists>r. incrementHeight wh = Some r \<and> good r"
  by (simp add: incrementHeight_def stepper_simps)

lemma decrementHeight_good:
  "0 < aspectRatio (fst wh) (snd wh) \<Longrightarrow> \<exists>r. decrementHeight wh = Some r \<and> good r"
  by (simp add: decrementHeight_def stepper_simps)

lemma handleWidthChange_good:
  "in_range v \<Longrightarrow> \<exists>r. handleWidthChange (NumberText v) wh = Some r \<and> good r"
  by (simp add: handleWidthChange_def Let_def good_def in_range_limits [symmetric]
      toFixed2_in_range clamp_range clamp_two_decimals toFixed2_two_decimals)

lemma handleHeightChange_good:
  "in_range v \<Longrightarrow> 0 < aspectRatio (fst wh) (snd wh) \<Longrightarrow>
     \<exists>r. handleHeightChange (NumberText v) wh = Some r \<and> good r"
  by (simp add: handleHeightChange_def Let_def good_def in_range_limits [symmetric]
      divide_js_def toFixed2_in_range clamp_range clamp_two_decimals toFixed2_two_decimals)

text \<open>
  C10. From a width and a height in \<open>[0.5, 22.5]\<close>, each stepper (increment or
  decrement of width or height) and each accepted numeric input (a number in
  \<open>[0.5, 22.5]\<close> typed as width or as height) sets a width and a height that are both in
  \<open>[0.5, 22.5]\<close> and both multiples of 1/100; this includes the other dimension, which
  is adjusted by the aspect ratio. No division by zero occurs on the way.
\<close>

theorem size_step_keeps_range:
  assumes "in_range w" and "in_range h" and "accepted a"
  shows "\<exists>w' h'. size_step a (w, h) = Some (w', h')
           \<and> in_range w' \<and> in_range h' \<and> two_decimals w' \<and> two_decimals h'"
proof -
  have ar: "0 < aspectRatio (fst (w, h)) (snd (w, h))"
    using assms by (simp add: aspectRatio_pos)
  have "\<exists>r. size_step a (w, h) = Some r \<and> good r"
    using assms(3) incrementWidth_good [OF ar] decrementWidth_good [OF ar]
      incrementHeight_good [OF ar] decrementHeight_good [OF ar]
      handleWidthChange_good handleHeightChange_good [OF _ ar]
    by (cases a) (simp_all add: size_step_def accepted_def)
  then show ?thesis
    by (auto simp: good_def)
qed

theorem size_step_keeps_range_witness:
  "in_range 22 \<and> in_range (1 / 2) \<and> accepted IncrementWidth
   \<and> size_step IncrementWidth (22, 1 / 2) = Some (45 / 2, 51 / 100)
   \<and> in_range (45 / 2) \<and> in_range (51 / 100)
   \<and> two_decimals (45 / 2) \<and> two_decimals (51 / 100)"
proof -
  have h: "in_range 22" "in_range (1 / 2)" "accepted IncrementWidth"
    by (simp_all add: in_range_def accepted_def)
  have v: "size_step IncrementWidth (22, 1 / 2) = Some (45 / 2, 51 / 100)"
    by (simp add: size_step_def incrementWidth_def Let_def aspectRatio_def divide_js_def
        clamp_def toFixed2_def MIN_SIZE_def MAX_SIZE_def STEP_INCHES_def
        updateWidthAndHeight_def)
  from size_step_keeps_range [OF h] obtain w' h' where
    r: "size_step IncrementWidth (22, 1 / 2) = Some (w', h')"
      "in_range w'" "in_range h'" "two_decimals w'" "two_decimals h'"
    by blast
  from r(1) v have "w' = 45 / 2" "h' = 51 / 100"
    by simp_all
  with r have "in_range (45 / 2) \<and> in_range (51 / 100)
        \<and> two_decimals (45 / 2) \<and> two_decimals (51 / 100)"
    by blast
  then show ?thesis using h v by blast
qed

section \<open>Dimensions read from the image\<close>

lemma toFixed2_nonneg: "0 \<le> x \<Longrightarrow> toFixed2 x = of_int (round (x * 100)) / 100"
  by (simp add: toFixed2_def round_def)

lemma min_max_in_range: "in_range (min (45 / 2) (max (1 / 2) x))"
  by (simp add: in_range_def)

lemma getImageDimensionsInInches_Loaded:
  "getImageDimensionsInInches (Loaded nw nh)
     = Inr (min (45 / 2) (max (1 / 2) (of_int (round (real nw / 300 * 100)) / 100)),
            min (45 / 2) (max (1 / 2) (of_int (round (real nh / 300 * 100)) / 100)))"
  by (simp add: getImageDimensionsInInches_def Let_def DPI_def DIMENSION_MIN_def
      DIMENSION_MAX_def toFixed2_nonneg)

lemma getImageDimensionsInInches_LoadFailed:
  "getImageDimensionsInInches LoadFailed = Inl ''Failed to load image for dimensions''"
  by (simp add: getImageDimensionsInInches_def)

text \<open>
  C7. For an image that loads with natural size \<open>nw \<times> nh\<close> pixels, the dimensions
  read are \<open>nw / 300\<close> and \<open>nh / 300\<close> inches, rounded to the nearest 1/100 and then
  clamped into \<open>[0.5, 22.5]\<close>, so both lie in that range, and they are what the pending
  read stores as width and height. When the image fails to load, the pending read
  leaves width and height as they were and logs one warning; it returns a state, never
  an error.
\<close>

theorem dimensions_from_image:
  "(\<exists>w h. getImageDimensionsInInches (Loaded nw nh) = Inr (w, h)
      \<and> w = min (45 / 2) (max (1 / 2) (of_int (round (real nw / 300 * 100)) / 100))
      \<and> h = min (45 / 2) (max (1 / 2) (of_int (round (real nh / 300 * 100)) / 100))
      \<and> in_range w \<and> in_range h)
   \<and> (u \<in> set (dimReads s) \<longrightarrow>
        getImageDimensionsInInches (Loaded nw nh)
          = Inr (width (imageSettled u (Loaded nw nh) s),
                 height (imageSettled u (Loaded nw nh) s))
        \<and> width (imageSettled u LoadFailed s) = width s
        \<and> height (imageSettled u LoadFailed s) = height s
        \<and> console (imageSettled u LoadFailed s)
            = console s
              @ [''Could not read image dimensions: Failed to load image for dimensions''])"
proof (intro conjI impI)
  show "\<exists>w h. getImageDimensionsInInches (Loaded nw nh) = Inr (w, h)
      \<and> w = min (45 / 2) (max (1 / 2) (of_int (round (real nw / 300 * 100)) / 100))
      \<and> h = min (45 / 2) (max (1 / 2) (of_int (round (real nh / 300 * 100)) / 100))
      \<and> in_range w \<and> in_range h"
    using getImageDimensionsInInches_Loaded min_max_in_range by blast
next
  assume "u \<in> set (dimReads s)"
  then show "getImageDimensionsInInches (Loaded nw nh)
          = Inr (width (imageSettled u (Loaded nw nh) s),
                 height (imageSettled u (Loaded nw nh) s))"
    by (simp add: imageSettled_def Let_def getImageDimensionsInInches_Loaded)
next
  assume "u \<in> set (dimReads s)"
  then show "width (imageSettled u LoadFailed s) = width s"
    by (simp add: imageSettled_def Let_def getImageDimensionsInInches_LoadFailed)
next
  assume "u \<in> set (dimReads s)"
  then show "height (imageSettled u LoadFailed s) = height s"
    by (simp add: imageSettled_def Let_def getImageDimensionsInInches_LoadFailed)
next
  assume "u \<in> set (dimReads s)"
  then show "console (imageSettled u LoadFailed s)
      = console s @ [''Could not read image dimensions: Failed to load image for dimensions'']"
    by (simp add: imageSettled_def Let_def getImageDimensionsInInches_LoadFailed)
qed

theorem dimensions_from_image_witness:
  "getImageDimensionsInInches (Loaded 1234 10000) = Inr (411 / 100, 45 / 2)
   \<and> ''blob:a'' \<in> set (dimReads (handleImageUpload ''blob:a'' None init))
   \<and> width (imageSettled ''blob:a'' (Loaded 1234 10000)
              (handleImageUpload ''blob:a'' None init)) = 411 / 100
   \<and> height (imageSettled ''blob:a'' (Loaded 1234 10000)
              (handleImageUpload ''blob:a'' None init)) = 45 / 2
   \<and> width (imageSettled ''blob:a'' LoadFailed (handleImageUpload ''blob:a'' None init)) = 10
   \<and> height (imageSettled ''blob:a'' LoadFailed (handleImageUpload ''blob:a'' None init)) = 10
   \<and> console (imageSettled ''blob:a'' LoadFailed (handleImageUpload ''blob:a'' None init))
       = [''Could not read image dimensions: Failed to load image for dimensions'']"
proof -
  let ?s = "handleImageUpload ''blob:a'' None init"
  have v: "getImageDimensionsInInches (Loaded 1234 10000) = Inr (411 / 100, 45 / 2)"
    by (simp add: getImageDimensionsInInches_def Let_def DPI_def DIMENSION_MIN_def
        DIMENSION_MAX_def toFixed2_def)
  have s: "dimReads ?s = [''blob:a'']" "width ?s = 10" "height ?s = 10" "console ?s = []"
    by (simp_all add: handleImageUpload_def init_def revokeRef_def isBlobRef_def Let_def)
  then have m: "''blob:a'' \<in> set (dimReads ?s)"
    by simp
  from dimensions_from_image [of 1234 10000 "''blob:a''" ?s] m v s
  show ?thesis
    by simp
qed

section \<open>Every processing call aborts the one before it\<close>

lemma ctl_update [simp]:
  "ctl (s\<lparr>imageUrl := x1\<rparr>) = ctl s"
  "ctl (s\<lparr>width := x2\<rparr>) = ctl s"
  "ctl (s\<lparr>height := x3\<rparr>) = ctl s"
  "ctl (s\<lparr>currentImageBlob := x4\<rparr>) = ctl s"
  "ctl (s\<lparr>originalImageBlob := x4\<rparr>) = ctl s"
  "ctl (s\<lparr>processedImageBlob := x4\<rparr>) = ctl s"
  "ctl (s\<lparr>originalImageUrl := x1\<rparr>) = ctl s"
  "ctl (s\<lparr>processedImageUrl := x1\<rparr>) = ctl s"
  "ctl (s\<lparr>originalServerUrl := x1\<rparr>) = ctl s"
  "ctl (s\<lparr>processedServerUrl := x1\<rparr>) = ctl s"
  "ctl (s\<lparr>finalImageUrl := x1\<rparr>) = ctl s"
  "ctl (s\<lparr>loadingRemoveBg := x5\<rparr>) = ctl s"
  "ctl (s\<lparr>loadingEnhance := x5\<rparr>) = ctl s"
  "ctl (s\<lparr>removeBgEnabled := x5\<rparr>) = ctl s"
  "ctl (s\<lparr>currentBlobUrlRef := x1\<rparr>) = ctl s"
  "ctl (s\<lparr>originalBlobUrlRef := x1\<rparr>) = ctl s"
  "ctl (s\<lparr>processedBlobUrlRef := x1\<rparr>) = ctl s"
  "ctl (s\<lparr>revoked := x6\<rparr>) = ctl s"
  "ctl (s\<lparr>dimReads := x6\<rparr>) = ctl s"
  "ctl (s\<lparr>console := x6\<rparr>) = ctl s"
  by (simp_all add: ctl_def)

lemma ctl_revokeRef [simp]: "ctl (revokeRef r s) = ctl s"
  by (simp add: revokeRef_def revokeObjectURL_def)

lemma ctl_revokeObjectURL [simp]: "ctl (revokeObjectURL u s) = ctl s"
  by (simp add: revokeObjectURL_def)

lemma ctl_updateDimensions [simp]: "ctl (updateDimensionsFromImageUrl u s) = ctl s"
  by (simp add: updateDimensionsFromImageUrl_def)

lemma ctl_storeProcessed [simp]: "ctl (storeProcessed h b u s) = ctl s"
  by (simp add: storeProcessed_def Let_def)

lemma ctl_readLinks [simp]: "ctl (readLinks h r s) = ctl s"
  by (simp add: readLinks_def Let_def)

lemma ctl_abortCurrent [simp]: "ctl (abortCurrent s) = abortc (ctl s)"
  by (simp add: abortCurrent_def ctl_def split: option.splits)

lemma ctl_startFetch [simp]: "ctl (startFetch h ep b s) = startc h (ep, b) (ctl s)"
  by (simp add: startFetch_def abortCurrent_def ctl_def Let_def split: option.splits)

lemma ctl_finish [simp]: "ctl (finish c s) = finishc (signal c) (ctl s)"
  by (simp add: finish_def ctl_def Let_def)

lemma ctl_advance: "ctl s' = ctl s \<Longrightarrow> ctl (s'\<lparr>pending := advance k (pending s)\<rparr>) = advancec k (ctl s)"
  by (simp add: ctl_def)

lemma ctl_imageSettled [simp]: "ctl (imageSettled u img s) = ctl s"
  by (simp add: imageSettled_def Let_def split: sum.splits)

lemma ctl_handleImageUpload:
  "ctl (handleImageUpload url file s) =
     (case file of None \<Rightarrow> ctl s
      | Some f \<Rightarrow> if removeBgEnabled s then startc UploadAuto (REMOVE_BG_ENDPOINT, f) (ctl s) else ctl s)"
  by (simp add: handleImageUpload_def Let_def split: option.splits)

lemma ctl_handleRemoveBg:
  "ctl (handleRemoveBg s) =
     (case currentImageBlob s of None \<Rightarrow> ctl s
      | Some b \<Rightarrow> if loadingRemoveBg s then ctl s else startc RemoveBg (REMOVE_BG_ENDPOINT, b) (ctl s))"
  by (simp add: handleRemoveBg_def split: option.splits)

lemma ctl_handleEnhance:
  "ctl (handleEnhance s) =
     (case currentImageBlob s of None \<Rightarrow> ctl s
      | Some b \<Rightarrow> if loadingEnhance s then ctl s else startc Enhance (ENHANCE_ENDPOINT, b) (ctl s))"
  by (simp add: handleEnhance_def split: option.splits)

lemma ctl_handleClearDesign: "ctl (handleClearDesign s) = ctl s"
  by (simp add: handleClearDesign_def Let_def)

lemma ctl_handleCancelProcessing: "ctl (handleCancelProcessing s) = abortc (ctl s)"
  by (simp add: handleCancelProcessing_def)

lemma ctl_unmount: "ctl (unmount s) = ctl s"
  by (simp add: unmount_def)

lemma ctl_handleToggleRemoveBg:
  "ctl (handleToggleRemoveBg enabled s) = ctl s
   \<or> (\<exists>b. ctl (handleToggleRemoveBg enabled s) = startc ToggleOn (REMOVE_BG_ENDPOINT, b) (ctl s))"
  by (auto simp: handleToggleRemoveBg_def Let_def)

lemma ctl_settle:
  "ctl (settle k out s) = ctl s \<or> ctl (settle k out s) = finishc k (ctl s)
   \<or> ctl (settle k out s) = advancec k (ctl s)"
proof (cases "find (\<lambda>c. signal c = k) (pending s)")
  case None
  then show ?thesis by (simp add: settle_def)
next
  case (Some c)
  then have "signal c = k"
    by (auto simp: find_Some_iff)
  with Some show ?thesis
    by (cases out) (auto simp: settle_def ctl_advance)
qed

lemma ctl_step: "\<exists>m. ctl (step e s) = movec m (ctl s)"
proof (cases e)
  case (Upload url fl)
  show ?thesis
  proof (cases fl)
    case None
    with Upload have "ctl (step e s) = movec Stay (ctl s)"
      by (simp add: step_def ctl_handleImageUpload)
    then show ?thesis ..
  next
    case (Some f)
    with Upload have "ctl (step e s) = movec (if removeBgEnabled s then Start UploadAuto (REMOVE_BG_ENDPOINT, f) else Stay) (ctl s)"
      by (simp add: step_def ctl_handleImageUpload)
    then show ?thesis ..
  qed
next
  case RemoveBackground
  then have "ctl (step e s) = movec (case currentImageBlob s of None \<Rightarrow> Stay
      | Some b \<Rightarrow> if loadingRemoveBg s then Stay else Start RemoveBg (REMOVE_BG_ENDPOINT, b)) (ctl s)"
    by (simp add: step_def ctl_handleRemoveBg split: option.splits)
  then show ?thesis ..
next
  case EnhanceImage
  then have "ctl (step e s) = movec (case currentImageBlob s of None \<Rightarrow> Stay
      | Some b \<Rightarrow> if loadingEnhance s then Stay else Start Enhance (ENHANCE_ENDPOINT, b)) (ctl s)"
    by (simp add: step_def ctl_handleEnhance split: option.splits)
  then show ?thesis ..
next
  case ClearDesign
  then have "ctl (step e s) = movec Stay (ctl s)"
    by (simp add: step_def ctl_handleClearDesign)
  then show ?thesis ..
next
  case CancelProcessing
  then have "ctl (step e s) = movec Abort (ctl s)"
    by (simp add: step_def ctl_handleCancelProcessing)
  then show ?thesis ..
next
  case (Toggle enabled)
  with ctl_handleToggleRemoveBg [of enabled s]
  have "ctl (step e s) = movec Stay (ctl s) \<or> (\<exists>b. ctl (step e s) = movec (Start ToggleOn (REMOVE_BG_ENDPOINT, b)) (ctl s))"
    by (simp add: step_def)
  then show ?thesis by blast
next
  case (Settle k out)
  with ctl_settle [of k out s]
  have "ctl (step e s) = movec Stay (ctl s) \<or> ctl (step e s) = movec (Finish k) (ctl s)
      \<or> ctl (step e s) = movec (Advance k) (ctl s)"
    by (simp add: step_def)
  then show ?thesis by blast
next
  case (ImageSettled u img)
  then have "ctl (step e s) = movec Stay (ctl s)"
    by (simp add: step_def)
  then show ?thesis ..
next
  case Unmount
  then have "ctl (step e s) = movec Stay (ctl s)"
    by (simp add: step_def ctl_unmount)
  then show ?thesis ..
qed


lemma signal_advance [simp]: "map signal (advance k cs) = map signal cs"
  by (induction cs) (simp_all add: advance_def)

lemma in_advanceD: "d \<in> set (advance k cs) \<Longrightarrow> \<exists>d' \<in> set cs. signal d' = signal d"
  by (auto simp: advance_def)

lemma invc_movec: "invc c \<Longrightarrow> invc (movec m c)"
proof (cases c)
  case (fields p a n r f)
  assume "invc c"
  with fields show ?thesis
    by (cases m) (auto simp: invc_def less_Suc_eq dest!: in_advanceD)
qed

lemma invc_init: "invc (ctl init)"
  by (simp add: invc_def ctl_def init_def)

lemma invc_step:
  assumes "invc (ctl s)"
  shows "invc (ctl (step e s))"
proof -
  from ctl_step [of e s] obtain m where "ctl (step e s) = movec m (ctl s)" ..
  with invc_movec [OF assms, of m] show ?thesis
    by simp
qed

lemma run_snoc: "run (evs @ [e]) s = step e (run evs s)"
  by (simp add: run_def)

lemma invc_run: "invc (ctl s) \<Longrightarrow> invc (ctl (run evs s))"
  by (induction evs rule: rev_induct) (simp_all add: run_def invc_step)

lemma aborted_movec: "fst (snd c) \<subseteq> fst (snd (movec m c))"
  by (cases c; cases m) auto

lemma aborted_ctl: "aborted s = fst (snd (ctl s))"
  by (simp add: ctl_def)

lemma pending_ctl: "pending s = fst (ctl s)"
  by (simp add: ctl_def)

lemma fetches_ctl: "fetches s = snd (snd (snd (snd (ctl s))))"
  by (simp add: ctl_def)

lemma aborted_step: "aborted s \<subseteq> aborted (step e s)"
proof -
  from ctl_step [of e s] obtain m where "ctl (step e s) = movec m (ctl s)" ..
  with aborted_movec [of "ctl s" m] show ?thesis
    by (simp add: aborted_ctl)
qed

lemma aborted_run: "aborted s \<subseteq> aborted (run evs s)"
proof (induction evs rule: rev_induct)
  case Nil
  show ?case by (simp add: run_def)
next
  case (snoc e evs)
  with aborted_step [of "run evs s" e] show ?case
    by (auto simp: run_snoc)
qed

lemma start_aborts:
  assumes "invc c" and "d \<in> set (fst c)"
    and "length (snd (snd (snd (snd (movec m c))))) > length (snd (snd (snd (snd c))))"
  shows "signal d \<in> fst (snd (movec m c))"
  using assms by (cases c; cases m) (auto simp: invc_def)

lemma initiation_aborts_pending:
  assumes "invc (ctl s)" and "c \<in> set (pending s)"
    and "length (fetches (step e s)) > length (fetches s)"
  shows "signal c \<in> aborted (step e s)"
proof -
  from ctl_step [of e s] obtain m where m: "ctl (step e s) = movec m (ctl s)" ..
  have "signal c \<in> fst (snd (movec m (ctl s)))"
  proof (rule start_aborts)
    show "invc (ctl s)" by fact
    show "c \<in> set (fst (ctl s))"
      using assms(2) by (simp add: pending_ctl)
    show "length (snd (snd (snd (snd (ctl s))))) < length (snd (snd (snd (snd (movec m (ctl s))))))"
      using assms(3) m by (simp add: fetches_ctl)
  qed
  with m show ?thesis
    by (simp add: aborted_ctl)
qed

lemma artifacts_finish: "artifacts (finish c s) = artifacts s"
  by (simp add: artifacts_def finish_def Let_def)

lemma settle_aborted: "k \<in> aborted s \<Longrightarrow> artifacts (settle k out s) = artifacts s"
  by (simp add: settle_def artifacts_finish split: option.splits)

text \<open>
  What the abort does achieve. Take a call that is pending after some run of the
  component, and an event that then initiates a remote processing call (it sends a
  request). From then on a settlement of the earlier call leaves the original and
  processed artifacts, the stored server URLs, the displayed image and the revoked URLs
  as they are at that moment. Nothing the earlier call wrote before it was superseded
  is taken back.
\<close>

lemma settlement_after_supersession_discarded:
  assumes "c \<in> set (pending (run evs init))"
    and "length (fetches (step e (run evs init))) > length (fetches (run evs init))"
  shows "artifacts (settle (signal c) out (run evs' (step e (run evs init))))
         = artifacts (run evs' (step e (run evs init)))"
proof -
  have "invc (ctl (run evs init))"
    using invc_init by (rule invc_run)
  then have "signal c \<in> aborted (step e (run evs init))"
    using assms by (rule initiation_aborts_pending)
  then have "signal c \<in> aborted (run evs' (step e (run evs init)))"
    using aborted_run by blast
  then show ?thesis
    by (rule settle_aborted)
qed

lemma settlement_after_supersession_example:
  "\<lparr>handler = UploadAuto, signal = 0, phase = AwaitFetch\<rparr>
     \<in> set (pending (run [Upload ''blob:a'' (Some 1)] init))
   \<and> length (fetches (run [Upload ''blob:a'' (Some 1)] init))
      < length (fetches (step EnhanceImage (run [Upload ''blob:a'' (Some 1)] init)))
   \<and> artifacts (settle 0 (Response \<lparr>status = 200, imageLink = Some ''/p.png'',
                                     autoEnhanceLink = None, originalLink = Some ''/o.png''\<rparr>)
                  (run [] (step EnhanceImage (run [Upload ''blob:a'' (Some 1)] init))))
       = artifacts (run [] (step EnhanceImage (run [Upload ''blob:a'' (Some 1)] init)))"
proof -
  let ?c = "\<lparr>handler = UploadAuto, signal = 0, phase = AwaitFetch\<rparr>"
  let ?s = "run [Upload ''blob:a'' (Some 1)] init"
  have p: "pending ?s = [?c]" and f: "length (fetches ?s) = 1"
    by (simp_all add: run_def step_def handleImageUpload_def init_def revokeRef_def
        isBlobRef_def startFetch_def abortCurrent_def Let_def)
  have g: "length (fetches (step EnhanceImage ?s)) = 2"
    by (simp add: run_def step_def handleImageUpload_def handleEnhance_def init_def
        revokeRef_def isBlobRef_def startFetch_def abortCurrent_def Let_def)
  have 1: "?c \<in> set (pending ?s)"
    using p by simp
  have 2: "length (fetches ?s) < length (fetches (step EnhanceImage ?s))"
    using f g by simp
  from settlement_after_supersession_discarded [OF 1 2, of _ "[]"] 1 2
  show ?thesis
    by simp
qed

section \<open>The toggle reuses what is cached\<close>

text \<open>
  C6. In a state that holds a processed artifact (display URL, blob, server URL
  \<open>R1\<close>) and an original artifact with its cached server URL \<open>O1\<close>, turning the
  toggle off displays the original (\<open>current\<close> is \<open>Original\<close>) and gives the cart
  \<open>O1\<close>; turning it on again displays the processed artifact (\<open>current\<close> is
  \<open>Processed\<close>) and gives the cart \<open>R1\<close>. Neither toggle sends a
  request or leaves a call pending.
\<close>

theorem toggle_reuses_cache:
  assumes "truthy (processedImageUrl s)" and "processedImageBlob s \<noteq> None"
    and "processedServerUrl s = Some R1" and "R1 \<noteq> []"
    and "truthy (originalImageUrl s)" and "originalImageBlob s \<noteq> None"
    and "originalServerUrl s = Some O1" and "O1 \<noteq> []"
  shows "(let s1 = handleToggleRemoveBg False s; s2 = handleToggleRemoveBg True s1
          in imageUrl s1 = originalImageUrl s \<and> currentImageBlob s1 = originalImageBlob s
             \<and> (originalImageUrl s \<noteq> processedImageUrl s \<longrightarrow> current s1 = Some Original)
             \<and> cartImageUrl s1 = Some O1
             \<and> imageUrl s2 = processedImageUrl s \<and> currentImageBlob s2 = processedImageBlob s
             \<and> current s2 = Some Processed
             \<and> cartImageUrl s2 = Some R1
             \<and> fetches s1 = fetches s \<and> fetches s2 = fetches s
             \<and> pending s1 = pending s \<and> pending s2 = pending s)"
proof -
  let ?s1 = "handleToggleRemoveBg False s"
  have s1: "?s1 = updateDimensionsFromImageUrl (originalImageUrl s)
             (s\<lparr>removeBgEnabled := False, currentBlobUrlRef := originalImageUrl s,
                  imageUrl := originalImageUrl s,
                  currentImageBlob := originalImageBlob s,
                  finalImageUrl := orNull (originalServerUrl s)\<rparr>)"
    using assms(5,6) by (simp add: handleToggleRemoveBg_def Let_def)
  have keep: "processedImageUrl ?s1 = processedImageUrl s" "processedImageBlob ?s1 = processedImageBlob s"
    "processedServerUrl ?s1 = processedServerUrl s" "originalServerUrl ?s1 = originalServerUrl s"
    "fetches ?s1 = fetches s" "pending ?s1 = pending s"
    "imageUrl ?s1 = originalImageUrl s" "currentImageBlob ?s1 = originalImageBlob s"
    "removeBgEnabled ?s1 = False" "originalImageUrl ?s1 = originalImageUrl s"
    by (simp_all add: s1 updateDimensionsFromImageUrl_def)
  have k1: "originalImageUrl s \<noteq> processedImageUrl s \<longrightarrow> current ?s1 = Some Original"
    using assms(5) keep(1,7,10) by (simp add: current_def)
  let ?s2 = "handleToggleRemoveBg True ?s1"
  have s2: "?s2 = updateDimensionsFromImageUrl (processedImageUrl s)
             (?s1\<lparr>removeBgEnabled := True, currentBlobUrlRef := processedImageUrl s,
                  imageUrl := processedImageUrl s,
                  currentImageBlob := processedImageBlob s,
                  finalImageUrl := orNull (processedServerUrl s)\<rparr>)"
    using assms(1,2) keep(1,2,3) by (simp add: handleToggleRemoveBg_def Let_def)
  have keep2: "fetches ?s2 = fetches s" "pending ?s2 = pending s"
    "imageUrl ?s2 = processedImageUrl s" "currentImageBlob ?s2 = processedImageBlob s"
    "removeBgEnabled ?s2 = True" "processedServerUrl ?s2 = processedServerUrl s"
    "processedImageUrl ?s2 = processedImageUrl s"
    by (simp_all add: s2 keep updateDimensionsFromImageUrl_def)
  have k2: "current ?s2 = Some Processed"
    using assms(1) keep2(3,7) by (simp add: current_def)
  have c1: "cartImageUrl ?s1 = Some O1"
    using keep assms(7,8) by (simp add: cartImageUrl_def orNull_def truthy_def)
  have c2: "cartImageUrl ?s2 = Some R1"
    using keep2 assms(3,4) by (simp add: cartImageUrl_def orNull_def truthy_def)
  show ?thesis
    using keep keep2 c1 c2 k1 k2 by (simp add: Let_def)
qed

theorem toggle_reuses_cache_witness:
  "(let s = run [Upload ''blob:a'' (Some 1),
         Settle 0 (Response \<lparr>status = 200, imageLink = Some ''/uploads/p1.png'',
                              autoEnhanceLink = None, originalLink = Some ''/uploads/o1.png''\<rparr>),
         Settle 0 (Body 2 ''blob:p1'')] init;
        s1 = handleToggleRemoveBg False s; s2 = handleToggleRemoveBg True s1
    in processedImageUrl s = Some ''blob:p1'' \<and> processedImageBlob s = Some 2
       \<and> originalImageUrl s = Some ''blob:a'' \<and> originalImageBlob s = Some 1
       \<and> imageUrl s1 = Some ''blob:a'' \<and> currentImageBlob s1 = Some 1
       \<and> current s1 = Some Original \<and> current s2 = Some Processed
       \<and> cartImageUrl s1 = Some ''https://highquality.allgovjobs.com/backend/uploads/o1.png''
       \<and> imageUrl s2 = Some ''blob:p1'' \<and> currentImageBlob s2 = Some 2
       \<and> cartImageUrl s2 = Some ''https://highquality.allgovjobs.com/backend/uploads/p1.png''
       \<and> length (fetches s) = 1 \<and> fetches s1 = fetches s \<and> fetches s2 = fetches s
       \<and> pending s2 = pending s)"
proof -
  let ?s = "run [Upload ''blob:a'' (Some 1),
         Settle 0 (Response \<lparr>status = 200, imageLink = Some ''/uploads/p1.png'',
                              autoEnhanceLink = None, originalLink = Some ''/uploads/o1.png''\<rparr>),
         Settle 0 (Body 2 ''blob:p1'')] init"
  have h: "processedImageUrl ?s = Some ''blob:p1''" "processedImageBlob ?s = Some 2"
    "processedServerUrl ?s = Some ''https://highquality.allgovjobs.com/backend/uploads/p1.png''"
    "originalImageUrl ?s = Some ''blob:a''" "originalImageBlob ?s = Some 1"
    "originalServerUrl ?s = Some ''https://highquality.allgovjobs.com/backend/uploads/o1.png''"
    "length (fetches ?s) = 1"
    by code_simp+
  have t: "truthy (processedImageUrl ?s)" "processedImageBlob ?s \<noteq> None"
    "truthy (originalImageUrl ?s)" "originalImageBlob ?s \<noteq> None"
    using h by (simp_all add: truthy_def)
  have n: "''https://highquality.allgovjobs.com/backend/uploads/p1.png'' \<noteq> []"
    "''https://highquality.allgovjobs.com/backend/uploads/o1.png'' \<noteq> []"
    by simp_all
  from toggle_reuses_cache [OF t(1,2) h(3) n(1) t(3,4) h(6) n(2)] h
  show ?thesis
    by (simp add: Let_def)
qed

section \<open>Enhance keeps the declared size\<close>

lemma find_fresh:
  "\<forall>d \<in> set p. signal d \<noteq> signal c \<Longrightarrow> find (\<lambda>d. signal d = signal c) (p @ [c]) = Some c"
  by (induction p) simp_all

lemma find_advance:
  "find (\<lambda>d. signal d = k) cs = Some c \<Longrightarrow>
     find (\<lambda>d. signal d = k) (advance k cs) = Some (c\<lparr>phase := AwaitBlob\<rparr>)"
  by (induction cs) (auto simp: advance_def split: if_splits)

lemma settle_Response:
  assumes "find (\<lambda>d. signal d = k) (pending s) = Some c" and "k \<notin> aborted s"
    and "phase c = AwaitFetch"
  shows "settle k (Response res) s = (readLinks (handler c) res s)\<lparr>pending := advance k (pending s)\<rparr>"
  using assms by (simp add: settle_def)

lemma settle_Body:
  assumes "find (\<lambda>d. signal d = k) (pending s) = Some c" and "k \<notin> aborted s"
    and "phase c = AwaitBlob"
  shows "settle k (Body b u) s = finish c (storeProcessed (handler c) b u s)"
  using assms by (simp add: settle_def)

text \<open>A call started in a state whose control invariant holds runs to completion.\<close>

lemma started_call_completes:
  assumes i: "invc (ctl s)" and c: "ctl s0 = startc h x (ctl s)"
  shows "settle (nextSignal s) (Body b u) (settle (nextSignal s) (Response res) s0)
         = finish \<lparr>handler = h, signal = nextSignal s, phase = AwaitBlob\<rparr>
             (storeProcessed h b u
               ((readLinks h res s0)\<lparr>pending := advance (nextSignal s) (pending s0)\<rparr>))"
proof -
  let ?k = "nextSignal s"
  let ?c = "\<lparr>handler = h, signal = ?k, phase = AwaitFetch\<rparr>"
  from c have p: "pending s0 = pending s @ [?c]"
    and a: "aborted s0 = aborted s \<union> set_option (abortControllerRef s)"
    by (simp_all add: ctl_def)
  from i have lt: "\<forall>d \<in> set (pending s). signal d < ?k" "\<forall>k \<in> aborted s. k < ?k"
    "\<forall>k \<in> set_option (abortControllerRef s). k < ?k"
    by (simp_all add: invc_def ctl_def)
  have f: "find (\<lambda>d. signal d = ?k) (pending s0) = Some ?c"
    using find_fresh [of "pending s" ?c] lt(1) p by fastforce
  have n: "?k \<notin> aborted s0"
    using a lt(2,3) by auto
  let ?s1 = "(readLinks h res s0)\<lparr>pending := advance ?k (pending s0)\<rparr>"
  have 1: "settle ?k (Response res) s0 = ?s1"
    using settle_Response [OF f n] by simp
  have f1: "find (\<lambda>d. signal d = ?k) (pending ?s1) = Some (?c\<lparr>phase := AwaitBlob\<rparr>)"
    using find_advance [OF f] by simp
  have "aborted ?s1 = aborted s0"
    using ctl_readLinks [of h res s0] by (simp add: ctl_def)
  with n have n1: "?k \<notin> aborted ?s1" by simp
  show ?thesis
    using settle_Body [OF f1 n1] 1 by simp
qed

lemma dims_finish [simp]: "dims (finish c s) = dims s"
  by (simp add: dims_def finish_def Let_def)

lemma shown_finish [simp]: "shown (finish c s) = shown s"
  by (simp add: shown_def finish_def Let_def)

lemma shown_storeProcessed [simp]: "shown (storeProcessed h b u s) = (Some u, Some b, Some b, Some u)"
  by (simp add: shown_def storeProcessed_def Let_def revokeRef_def revokeObjectURL_def
      updateDimensionsFromImageUrl_def)

lemma dims_revokeRef [simp]: "dims (revokeRef r s) = dims s"
  by (simp add: dims_def revokeRef_def revokeObjectURL_def)

lemma dims_storeProcessed_Enhance: "dims (storeProcessed Enhance b u s) = dims s"
  by (simp add: dims_def storeProcessed_def Let_def revokeRef_def revokeObjectURL_def)

lemma dims_storeProcessed_RemoveBg:
  "u \<noteq> [] \<Longrightarrow>
     dims (storeProcessed RemoveBg b u s)
       = (fst (dims s), fst (snd (dims s)), snd (snd (dims s)) @ [u])"
  by (simp add: dims_def storeProcessed_def Let_def revokeRef_def revokeObjectURL_def
      updateDimensionsFromImageUrl_def truthy_def)

lemma dims_readLinks [simp]: "dims (readLinks h res s) = dims s"
  by (simp add: dims_def readLinks_def Let_def)

lemma dims_pending [simp]: "dims (s\<lparr>pending := p\<rparr>) = dims s" "dims (s\<lparr>loadingEnhance := l\<rparr>) = dims s"
  "dims (s\<lparr>loadingRemoveBg := l\<rparr>) = dims s"
  by (simp_all add: dims_def)

lemma dims_startFetch [simp]: "dims (startFetch h ep b s) = dims s"
  by (simp add: dims_def startFetch_def abortCurrent_def Let_def split: option.splits)

text \<open>
  C8. From any state the component can reach that has a current image: an Enhance
  that succeeds (started, its response and then its body arriving) stores and displays
  the new image, leaves width and height as they were and starts no dimension read;
  a Remove BG that succeeds stores and displays the new image and starts a read of its
  dimensions, which sets width and height to the dimensions read from the new image.
\<close>

theorem enhance_keeps_dimensions:
  assumes "currentImageBlob (run evs init) = Some img" and "u \<noteq> []"
  shows "(\<not> loadingEnhance (run evs init) \<longrightarrow>
            (let s = run evs init; k = nextSignal s;
                 s' = settle k (Body b u) (settle k (Response res) (handleEnhance s))
             in processedImageBlob s' = Some b \<and> processedImageUrl s' = Some u
                \<and> imageUrl s' = Some u \<and> currentImageBlob s' = Some b
                \<and> width s' = width s \<and> height s' = height s \<and> dimReads s' = dimReads s))
         \<and> (\<not> loadingRemoveBg (run evs init) \<longrightarrow>
            (let s = run evs init; k = nextSignal s;
                 s' = settle k (Body b u) (settle k (Response res) (handleRemoveBg s))
             in processedImageBlob s' = Some b \<and> processedImageUrl s' = Some u
                \<and> imageUrl s' = Some u \<and> currentImageBlob s' = Some b
                \<and> dimReads s' = dimReads s @ [u]
                \<and> getImageDimensionsInInches (Loaded nw nh)
                    = Inr (width (imageSettled u (Loaded nw nh) s'),
                           height (imageSettled u (Loaded nw nh) s'))))"
proof (intro conjI impI)
  let ?s = "run evs init"
  let ?k = "nextSignal ?s"
  have i: "invc (ctl ?s)"
    using invc_init by (rule invc_run)
  {
    assume l: "\<not> loadingEnhance ?s"
    let ?t = "handleEnhance ?s"
    let ?s' = "settle ?k (Body b u) (settle ?k (Response res) ?t)"
    have s0: "?t = (startFetch Enhance ENHANCE_ENDPOINT img ?s)\<lparr>loadingEnhance := True\<rparr>"
      using assms(1) l by (simp add: handleEnhance_def)
    then have c: "ctl ?t = startc Enhance (ENHANCE_ENDPOINT, img) (ctl ?s)"
      by simp
    note e = started_call_completes [OF i c, of b u res]
    have "shown ?s' = (Some u, Some b, Some b, Some u)"
      by (simp add: e)
    moreover have "dims ?s' = dims ?t"
      by (simp add: e dims_storeProcessed_Enhance)
    moreover have "dims ?t = dims ?s"
      by (simp add: s0)
    ultimately show "let s = run evs init; k = nextSignal s;
                 s' = settle k (Body b u) (settle k (Response res) (handleEnhance s))
             in processedImageBlob s' = Some b \<and> processedImageUrl s' = Some u
                \<and> imageUrl s' = Some u \<and> currentImageBlob s' = Some b
                \<and> width s' = width s \<and> height s' = height s \<and> dimReads s' = dimReads s"
      by (simp add: Let_def shown_def dims_def)
  }
  {
    assume l: "\<not> loadingRemoveBg ?s"
    let ?t = "handleRemoveBg ?s"
    let ?s' = "settle ?k (Body b u) (settle ?k (Response res) ?t)"
    have s0: "?t = (startFetch RemoveBg REMOVE_BG_ENDPOINT img ?s)\<lparr>loadingRemoveBg := True\<rparr>"
      using assms(1) l by (simp add: handleRemoveBg_def)
    then have c: "ctl ?t = startc RemoveBg (REMOVE_BG_ENDPOINT, img) (ctl ?s)"
      by simp
    note e = started_call_completes [OF i c, of b u res]
    have sh: "shown ?s' = (Some u, Some b, Some b, Some u)"
      by (simp add: e)
    have "dims ?s' = (fst (dims ?t), fst (snd (dims ?t)), snd (snd (dims ?t)) @ [u])"
      using assms(2) by (simp add: e dims_storeProcessed_RemoveBg)
    moreover have "dims ?t = dims ?s"
      by (simp add: s0)
    ultimately have d: "dimReads ?s' = dimReads ?s @ [u]"
      by (simp add: dims_def)
    then have "u \<in> set (dimReads ?s')"
      by simp
    then have "getImageDimensionsInInches (Loaded nw nh)
                    = Inr (width (imageSettled u (Loaded nw nh) ?s'),
                           height (imageSettled u (Loaded nw nh) ?s'))"
      by (simp add: imageSettled_def Let_def getImageDimensionsInInches_Loaded)
    with sh d show "let s = run evs init; k = nextSignal s;
                 s' = settle k (Body b u) (settle k (Response res) (handleRemoveBg s))
             in processedImageBlob s' = Some b \<and> processedImageUrl s' = Some u
                \<and> imageUrl s' = Some u \<and> currentImageBlob s' = Some b
                \<and> dimReads s' = dimReads s @ [u]
                \<and> getImageDimensionsInInches (Loaded nw nh)
                    = Inr (width (imageSettled u (Loaded nw nh) s'),
                           height (imageSettled u (Loaded nw nh) s'))"
      by (simp add: Let_def shown_def)
  }
qed

theorem enhance_keeps_dimensions_witness:
  "currentImageBlob (run [Upload ''blob:a'' (Some 1),
         Settle 0 (Response \<lparr>status = 200, imageLink = Some ''/uploads/p1.png'',
                              autoEnhanceLink = None, originalLink = Some ''/uploads/o1.png''\<rparr>),
         Settle 0 (Body 2 ''blob:p1'')] init) = Some 2
   \<and> \<not> loadingEnhance (run [Upload ''blob:a'' (Some 1),
         Settle 0 (Response \<lparr>status = 200, imageLink = Some ''/uploads/p1.png'',
                              autoEnhanceLink = None, originalLink = Some ''/uploads/o1.png''\<rparr>),
         Settle 0 (Body 2 ''blob:p1'')] init)
   \<and> \<not> loadingRemoveBg (run [Upload ''blob:a'' (Some 1),
         Settle 0 (Response \<lparr>status = 200, imageLink = Some ''/uploads/p1.png'',
                              autoEnhanceLink = None, originalLink = Some ''/uploads/o1.png''\<rparr>),
         Settle 0 (Body 2 ''blob:p1'')] init)
   \<and> (let s = run [Upload ''blob:a'' (Some 1),
         Settle 0 (Response \<lparr>status = 200, imageLink = Some ''/uploads/p1.png'',
                              autoEnhanceLink = None, originalLink = Some ''/uploads/o1.png''\<rparr>),
         Settle 0 (Body 2 ''blob:p1'')] init;
           k = nextSignal s;
           s' = settle k (Body 3 ''blob:e1'')
                  (settle k (Response \<lparr>status = 200, imageLink = None,
                                        autoEnhanceLink = Some ''/uploads/e1.png'',
                                        originalLink = None\<rparr>) (handleEnhance s))
       in imageUrl s' = Some ''blob:e1'' \<and> width s' = width s \<and> height s' = height s
          \<and> dimReads s' = dimReads s)
   \<and> (let s = run [Upload ''blob:a'' (Some 1),
         Settle 0 (Response \<lparr>status = 200, imageLink = Some ''/uploads/p1.png'',
                              autoEnhanceLink = None, originalLink = Some ''/uploads/o1.png''\<rparr>),
         Settle 0 (Body 2 ''blob:p1'')] init;
           k = nextSignal s;
           s' = settle k (Body 3 ''blob:e1'')
                  (settle k (Response \<lparr>status = 200, imageLink = None,
                                        autoEnhanceLink = Some ''/uploads/e1.png'',
                                        originalLink = None\<rparr>) (handleRemoveBg s))
       in imageUrl s' = Some ''blob:e1'' \<and> dimReads s' = dimReads s @ [''blob:e1'']
          \<and> getImageDimensionsInInches (Loaded 600 900)
              = Inr (width (imageSettled ''blob:e1'' (Loaded 600 900) s'),
                     height (imageSettled ''blob:e1'' (Loaded 600 900) s')))"
proof -
  let ?s = "run [Upload ''blob:a'' (Some 1),
         Settle 0 (Response \<lparr>status = 200, imageLink = Some ''/uploads/p1.png'',
                              autoEnhanceLink = None, originalLink = Some ''/uploads/o1.png''\<rparr>),
         Settle 0 (Body 2 ''blob:p1'')] init"
  have h: "currentImageBlob ?s = Some 2" "\<not> loadingEnhance ?s" "\<not> loadingRemoveBg ?s"
    by code_simp+
  have u: "''blob:e1'' \<noteq> []"
    by simp
  from enhance_keeps_dimensions [OF h(1) u, of 3 _ 600 900] h
  show ?thesis
    by (simp add: Let_def)
qed

section \<open>Runs on which the component departs from its specification\<close>

text \<open>
  C1. An image is uploaded and its background removed; the toggle is turned off, so the
  original is displayed; Enhance then succeeds. The preview now shows the enhanced
  image, which is the processed artifact, while the cart is given the server URL of the
  original: \<open>cartImageUrl\<close> follows the toggle, not what is displayed. The server URL of
  the enhanced image is held in \<open>processedServerUrl\<close> and \<open>finalImageUrl\<close>.
\<close>

theorem cart_differs_from_preview_after_enhance:
  "(let s = run [Upload ''blob:a'' (Some 1),
         Settle 0 (Response \<lparr>status = 200, imageLink = Some ''/uploads/p1.png'',
                              autoEnhanceLink = None, originalLink = Some ''/uploads/o1.png''\<rparr>),
         Settle 0 (Body 2 ''blob:p1''),
         Toggle False,
         EnhanceImage,
         Settle 1 (Response \<lparr>status = 200, imageLink = None,
                              autoEnhanceLink = Some ''/uploads/e1.png'',
                              originalLink = Some ''/uploads/o2.png''\<rparr>),
         Settle 1 (Body 3 ''blob:e1'')] init
    in imageUrl s = Some ''blob:e1'' \<and> processedImageUrl s = Some ''blob:e1''
       \<and> originalImageUrl s = Some ''blob:a''
       \<and> current s = Some Processed
       \<and> \<not> removeBgEnabled s
       \<and> cartKind s = Some Original
       \<and> cartImageUrl s = originalServerUrl s
       \<and> cartImageUrl s = Some ''https://highquality.allgovjobs.com/backend/uploads/o2.png''
       \<and> processedServerUrl s = Some ''https://highquality.allgovjobs.com/backend/uploads/e1.png''
       \<and> finalImageUrl s = Some ''https://highquality.allgovjobs.com/backend/uploads/e1.png'')"
  by code_simp

text \<open>
  C2. An image is uploaded with auto-process on and the response of its remove-bg call
  arrives: the handler stores the links of its headers and goes on to wait for the
  body. Enhance is then started, which aborts that call; its body is dropped. The links
  of the superseded call stay: \<open>processedServerUrl\<close>, \<open>originalServerUrl\<close>,
  \<open>finalImageUrl\<close> and the cart URL hold them, with no processed image stored and the
  original on display. Had the same response arrived only after Enhance was started,
  all of them would be null: a response that arrives before the cancellation is not
  discarded entirely.
\<close>

theorem superseded_response_links_kept:
  "(let s0 = run [Upload ''blob:a'' (Some 1)] init;
        s = run [Upload ''blob:a'' (Some 1),
                 Settle 0 (Response \<lparr>status = 200, imageLink = Some ''/uploads/p1.png'',
                                      autoEnhanceLink = None,
                                      originalLink = Some ''/uploads/o1.png''\<rparr>),
                 EnhanceImage,
                 Settle 0 (Body 2 ''blob:p1'')] init;
        t = run [Upload ''blob:a'' (Some 1),
                 EnhanceImage,
                 Settle 0 (Response \<lparr>status = 200, imageLink = Some ''/uploads/p1.png'',
                                      autoEnhanceLink = None,
                                      originalLink = Some ''/uploads/o1.png''\<rparr>),
                 Settle 0 (Body 2 ''blob:p1'')] init
    in processedServerUrl s0 = None \<and> originalServerUrl s0 = None
       \<and> pending s = [\<lparr>handler = Enhance, signal = 1, phase = AwaitFetch\<rparr>]
       \<and> 0 \<in> aborted s
       \<and> processedServerUrl s = Some ''https://highquality.allgovjobs.com/backend/uploads/p1.png''
       \<and> originalServerUrl s = Some ''https://highquality.allgovjobs.com/backend/uploads/o1.png''
       \<and> finalImageUrl s = Some ''https://highquality.allgovjobs.com/backend/uploads/p1.png''
       \<and> cartImageUrl s = Some ''https://highquality.allgovjobs.com/backend/uploads/p1.png''
       \<and> processedImageBlob s = None \<and> processedImageUrl s = None
       \<and> imageUrl s = Some ''blob:a'' \<and> current s = Some Original
       \<and> pending t = pending s
       \<and> processedServerUrl t = None \<and> originalServerUrl t = None
       \<and> finalImageUrl t = None \<and> cartImageUrl t = None
       \<and> artifacts s \<noteq> artifacts t)"
  by code_simp

lemma failure_keeps_artifacts:
  "artifacts (settle k Failed s) = artifacts s"
  by (simp add: settle_def artifacts_finish artifacts_def finish_def Let_def
      split: option.splits)

text \<open>
  C3. An image is uploaded with auto-process on and the endpoint answers with status
  500, no link headers and some body. The status is never looked at: the body is stored
  as the processed blob and displayed in place of the original, and nothing is logged.
  (A promise that rejects, by contrast, leaves the artifacts alone:
  \<open>failure_keeps_artifacts\<close>.)
\<close>

theorem non_2xx_body_becomes_processed:
  "(let s0 = run [Upload ''blob:a'' (Some 1)] init;
        s = run [Settle 0 (Response \<lparr>status = 500, imageLink = None,
                                      autoEnhanceLink = None, originalLink = None\<rparr>),
                 Settle 0 (Body 2 ''blob:err'')] s0
    in processedImageBlob s0 = None \<and> current s0 = Some Original
       \<and> processedImageBlob s = Some 2 \<and> processedImageUrl s = Some ''blob:err''
       \<and> imageUrl s = Some ''blob:err'' \<and> currentImageBlob s = Some 2
       \<and> current s = Some Processed
       \<and> console s = [])"
  by code_simp

text \<open>
  C4. On the run of C1 the Enhance completion revokes the URL held by
  \<open>currentBlobUrlRef\<close>, which is the original's: \<open>blob:a\<close> is revoked while
  \<open>originalImageUrl\<close> and \<open>originalBlobUrlRef\<close> still hold it. Turning the toggle on
  and off again displays it after its revocation, and Clear revokes it a second time.
\<close>

theorem original_url_revoked_while_held:
  "(let s = run [Upload ''blob:a'' (Some 1),
         Settle 0 (Response \<lparr>status = 200, imageLink = Some ''/uploads/p1.png'',
                              autoEnhanceLink = None, originalLink = Some ''/uploads/o1.png''\<rparr>),
         Settle 0 (Body 2 ''blob:p1''),
         Toggle False,
         EnhanceImage,
         Settle 1 (Response \<lparr>status = 200, imageLink = None,
                              autoEnhanceLink = Some ''/uploads/e1.png'',
                              originalLink = Some ''/uploads/o2.png''\<rparr>),
         Settle 1 (Body 3 ''blob:e1'')] init;
        s1 = run [Toggle True, Toggle False] s;
        s2 = run [ClearDesign] s1
    in revoked s = [''blob:p1'', ''blob:a'']
       \<and> originalImageUrl s = Some ''blob:a'' \<and> originalBlobUrlRef s = Some ''blob:a''
       \<and> imageUrl s1 = Some ''blob:a'' \<and> ''blob:a'' \<in> set (revoked s1)
       \<and> revoked s2 = [''blob:p1'', ''blob:a'', ''blob:a'', ''blob:e1'']
       \<and> count_list (revoked s2) ''blob:a'' = 2)"
  by code_simp

end
